theory Spec2Isabelle
  imports Main "HOL-Library.Word"
begin

section \<open>Layer taxonomy (JoltJS.h, lines 46-75)\<close>

text \<open>
  \<open>ObjectLayer\<close> and \<open>BroadPhaseLayer\<close> are declared by the Jolt headers that
  JoltJS.h includes: an unsigned 16-bit integer, and a class wrapping one unsigned 8-bit
  value that is compared by that value. Nothing below depends on the widths beyond both
  types holding the values 0, 1 and 2.
\<close>

type_synonym ObjectLayer = "16 word"
type_synonym BroadPhaseLayer = "8 word"

datatype Layers = NON_MOVING | MOVING | NUM_LAYERS

text \<open>The cast \<open>(int)Layers::X\<close>: the enumerators are given the values 0, 1 and 2.\<close>

fun Layers_int :: "Layers \<Rightarrow> int" where
  "Layers_int NON_MOVING = 0"
| "Layers_int MOVING = 1"
| "Layers_int NUM_LAYERS = 2"

definition BroadPhaseLayers_NON_MOVING :: BroadPhaseLayer where
  "BroadPhaseLayers_NON_MOVING = 0"

definition BroadPhaseLayers_MOVING :: BroadPhaseLayer where
  "BroadPhaseLayers_MOVING = 1"

definition BroadPhaseLayers_NUM_LAYERS :: "32 word" where
  "BroadPhaseLayers_NUM_LAYERS = 2"

section \<open>Faults and assertions (lines 32-44)\<close>

text \<open>
  What a call can do instead of returning: stop in a failed assertion (the text of the
  asserted expression is what the sink is given), or run into behaviour that C++ leaves
  undefined (an array read past its end or of a slot never written, a signed overflow,
  a \<open>delete\<close> of a pointer that is not live).
\<close>

datatype fault =
    AssertFailed string
  | OutOfBoundsRead
  | UninitialisedRead
  | SignedOverflow
  | InvalidDelete

text \<open>
  \<open>AssertFailedImpl\<close> prints its arguments and returns \<open>true\<close>: the caller is to
  break. Only the expression text is kept of the arguments.
\<close>

definition AssertFailedImpl :: "string \<Rightarrow> bool" where
  "AssertFailedImpl inExpression = True"

text \<open>
  Modelled from the spec: the macro \<open>JPH_ASSERT\<close> is declared by the Jolt headers,
  not by JoltJS.h. With assertion checking compiled in (\<open>JPH_ENABLE_ASSERTS\<close>, the first
  argument here) a false condition is handed to the assertion sink, whose boolean result
  says whether the caller breaks; with assertion checking compiled out the macro does
  nothing.
\<close>

definition JPH_ASSERT :: "bool \<Rightarrow> bool \<Rightarrow> string \<Rightarrow> fault + unit" where
  "JPH_ASSERT asserts cond expr =
     (if asserts \<and> \<not> cond \<and> AssertFailedImpl expr then Inl (AssertFailed expr)
      else Inr ())"

text \<open>Sequencing of calls that may stop in a fault.\<close>

definition and_then :: "fault + 'a \<Rightarrow> ('a \<Rightarrow> fault + 'b) \<Rightarrow> fault + 'b" where
  "and_then r k = (case r of Inl f \<Rightarrow> Inl f | Inr v \<Rightarrow> k v)"

section \<open>Collision filters (lines 54-67 and 116-129)\<close>

text \<open>
  The \<open>switch\<close> promotes its 16-bit operand to \<open>int\<close> and compares it with the case
  labels in order; the comparison \<open>inObject2 == (int)Layers::MOVING\<close> promotes too.
\<close>

definition MyObjectCanCollide :: "bool \<Rightarrow> ObjectLayer \<Rightarrow> ObjectLayer \<Rightarrow> fault + bool" where
  "MyObjectCanCollide asserts inObject1 inObject2 =
     (if uint inObject1 = Layers_int NON_MOVING then
        Inr (uint inObject2 = Layers_int MOVING)
      else if uint inObject1 = Layers_int MOVING then
        Inr True
      else
        and_then (JPH_ASSERT asserts False ''false'') (\<lambda>_. Inr False))"

definition MyBroadPhaseCanCollide :: "bool \<Rightarrow> ObjectLayer \<Rightarrow> BroadPhaseLayer \<Rightarrow> fault + bool" where
  "MyBroadPhaseCanCollide asserts inLayer1 inLayer2 =
     (if uint inLayer1 = Layers_int NON_MOVING then
        Inr (inLayer2 = BroadPhaseLayers_MOVING)
      else if uint inLayer1 = Layers_int MOVING then
        Inr True
      else
        and_then (JPH_ASSERT asserts False ''false'') (\<lambda>_. Inr False))"

section \<open>Broadphase layer mapper (lines 77-114)\<close>

text \<open>
  The table \<open>mObjectToBroadPhase\<close> has \<open>NUM_LAYERS\<close> slots. A slot holds \<open>None\<close>
  until it is written: the default constructor of a broadphase layer leaves its value
  unset.
\<close>

record BPLayerInterfaceImpl =
  mObjectToBroadPhase :: "BroadPhaseLayer option list"

definition BPLayerInterfaceImpl_ctor :: BPLayerInterfaceImpl where
  "BPLayerInterfaceImpl_ctor =
     \<lparr> mObjectToBroadPhase =
         (replicate (nat (Layers_int NUM_LAYERS)) None)
           [nat (Layers_int NON_MOVING) := Some BroadPhaseLayers_NON_MOVING,
            nat (Layers_int MOVING) := Some BroadPhaseLayers_MOVING] \<rparr>"

definition GetNumBroadPhaseLayers :: "BPLayerInterfaceImpl \<Rightarrow> 32 word" where
  "GetNumBroadPhaseLayers this = BroadPhaseLayers_NUM_LAYERS"

text \<open>Reading slot \<open>i\<close> of the table: past the end and unset slots are faults.\<close>

definition table_read :: "BroadPhaseLayer option list \<Rightarrow> nat \<Rightarrow> fault + BroadPhaseLayer" where
  "table_read tab i =
     (if i < length tab then
        (case tab ! i of None \<Rightarrow> Inl UninitialisedRead | Some v \<Rightarrow> Inr v)
      else Inl OutOfBoundsRead)"

definition GetBroadPhaseLayer ::
  "bool \<Rightarrow> BPLayerInterfaceImpl \<Rightarrow> ObjectLayer \<Rightarrow> fault + BroadPhaseLayer" where
  "GetBroadPhaseLayer asserts this inLayer =
     and_then
       (JPH_ASSERT asserts (uint inLayer < Layers_int NUM_LAYERS)
          ''inLayer < (int)Layers::NUM_LAYERS'')
       (\<lambda>_. table_read (mObjectToBroadPhase this) (unat inLayer))"

text \<open>The object layers of the taxonomy: the values below \<open>NUM_LAYERS\<close>.\<close>

definition valid_layer :: "ObjectLayer \<Rightarrow> bool" where
  "valid_layer l = (uint l < Layers_int NUM_LAYERS)"

text \<open>How a caller passes an enumerator as an object layer: \<open>(ObjectLayer)Layers::X\<close>.\<close>

definition ObjectLayer_of :: "Layers \<Rightarrow> ObjectLayer" where
  "ObjectLayer_of l = word_of_int (Layers_int l)"

section \<open>Simulation driver (lines 131-181)\<close>

text \<open>
  What JoltJS.h reads from its build and its host without declaring it: whether assertion
  checking is compiled in, the two job-system constants of the Jolt headers, and the
  result of \<open>thread::hardware_concurrency()\<close>, an \<open>unsigned int\<close>.
\<close>

record build_env =
  JPH_ENABLE_ASSERTS :: bool
  cMaxPhysicsJobs :: int
  cMaxPhysicsBarriers :: int
  hardware_concurrency :: "32 word"

text \<open>The members of the driver, each recorded with the arguments it is built from.\<close>

record TempAllocatorImpl =
  arena_size :: int

record JobSystemThreadPool =
  inMaxJobs :: int
  inMaxBarriers :: int
  inNumThreads :: int

text \<open>
  The arguments of \<open>PhysicsSystem::Init\<close> at line 153, in the order of the call. The
  mapper is passed by reference to the member \<open>mBPLayerInterface\<close>; the record holds
  its value.
\<close>

record PhysicsSystem_Init =
  inMaxBodies :: "32 word"
  inNumBodyMutexes :: "32 word"
  inMaxBodyPairs :: "32 word"
  inMaxContactConstraints :: "32 word"
  inBroadPhaseLayerInterface :: BPLayerInterfaceImpl
  inObjectVsBroadPhaseLayerFilter :: "ObjectLayer \<Rightarrow> BroadPhaseLayer \<Rightarrow> fault + bool"
  inObjectLayerPairFilter :: "ObjectLayer \<Rightarrow> ObjectLayer \<Rightarrow> fault + bool"

text \<open>
  The world is default-constructed as a member (\<open>None\<close>) and initialised by the call of
  \<open>Init\<close> in the constructor's body.
\<close>

record JoltInterface =
  mTempAllocator :: TempAllocatorImpl
  mJobSystem :: JobSystemThreadPool
  mBPLayerInterface :: BPLayerInterfaceImpl
  mPhysicsSystem :: "PhysicsSystem_Init option"

text \<open>
  The process-wide state the driver touches: the two diagnostic hooks, the singleton
  pointer \<open>Factory::sInstance\<close> (\<open>None\<close> is \<open>nullptr\<close>), the factories that are
  allocated and not yet deleted, and the trace of what was created, destroyed and called,
  oldest first.
\<close>

datatype resource =
    R_TempAllocator
  | R_JobSystem
  | R_BPLayerInterface
  | R_PhysicsSystem
  | R_Factory

datatype event =
    Created resource
  | Destroyed resource
  | Called_RegisterTypes
  | Called_PhysicsSystem_Init

datatype hook = Hook_default | Hook_TraceImpl | Hook_AssertFailedImpl

record process =
  Trace :: hook
  AssertFailed_hook :: hook
  Factory_sInstance :: "nat option"
  live_factories :: "nat list"
  events :: "event list"

definition log_events :: "event list \<Rightarrow> process \<Rightarrow> process" where
  "log_events es p = p\<lparr>events := events p @ es\<rparr>"

text \<open>\<open>new Factory()\<close>: an address that no live factory has.\<close>

definition fresh_address :: "nat list \<Rightarrow> nat" where
  "fresh_address live = Suc (fold max live 0)"

definition new_Factory :: "process \<Rightarrow> nat \<times> process" where
  "new_Factory p =
     (let a = fresh_address (live_factories p)
      in (a, log_events [Created R_Factory] (p\<lparr>live_factories := a # live_factories p\<rparr>)))"

text \<open>
  \<open>delete ptr\<close>: nothing for \<open>nullptr\<close>; destroys and frees a live factory; undefined
  for a pointer to a factory that is no longer live.
\<close>

definition delete_Factory :: "nat option \<Rightarrow> process \<Rightarrow> fault + process" where
  "delete_Factory ptr p =
     (case ptr of
        None \<Rightarrow> Inr p
      | Some a \<Rightarrow>
          if a \<in> set (live_factories p) then
            Inr (log_events [Destroyed R_Factory]
                   (p\<lparr>live_factories := removeAll a (live_factories p)\<rparr>))
          else Inl InvalidDelete)"

text \<open>
  The initialiser of \<open>mJobSystem\<close> at line 178 computes
  \<open>(int)thread::hardware_concurrency() - 1\<close>: the cast reads the 32 bits as a signed
  value, and the subtraction overflows at the least \<open>int\<close>.
\<close>

definition num_threads_arg :: "32 word \<Rightarrow> fault + int" where
  "num_threads_arg hc =
     (if sint hc = - (2 ^ 31) then Inl SignedOverflow else Inr (sint hc - 1))"

text \<open>
  The constructor. C++ builds the members first, in the order of their declaration (lines
  177-180), and then runs the body (lines 139-153).
\<close>

definition JoltInterface_ctor :: "build_env \<Rightarrow> process \<Rightarrow> fault + JoltInterface \<times> process" where
  "JoltInterface_ctor env p =
     and_then (num_threads_arg (hardware_concurrency env)) (\<lambda>n.
       let tmp = \<lparr> arena_size = 10 * 1024 * 1024 \<rparr>;
           jobs = \<lparr> inMaxJobs = cMaxPhysicsJobs env,
                    inMaxBarriers = cMaxPhysicsBarriers env,
                    inNumThreads = n \<rparr>;
           bpl = BPLayerInterfaceImpl_ctor;
           p1 = log_events [Created R_TempAllocator, Created R_JobSystem,
                            Created R_BPLayerInterface, Created R_PhysicsSystem] p;
           p2 = p1\<lparr>Trace := Hook_TraceImpl\<rparr>;
           p3 = (if JPH_ENABLE_ASSERTS env then p2\<lparr>AssertFailed_hook := Hook_AssertFailedImpl\<rparr>
                 else p2);
           (a, p4) = new_Factory p3;
           p5 = p4\<lparr>Factory_sInstance := Some a\<rparr>;
           p6 = log_events [Called_RegisterTypes] p5;
           cMaxBodies = 1024;
           cNumBodyMutexes = 0;
           cMaxBodyPairs = 1024;
           cMaxContactConstraints = 1024;
           world = \<lparr> inMaxBodies = cMaxBodies,
                     inNumBodyMutexes = cNumBodyMutexes,
                     inMaxBodyPairs = cMaxBodyPairs,
                     inMaxContactConstraints = cMaxContactConstraints,
                     inBroadPhaseLayerInterface = bpl,
                     inObjectVsBroadPhaseLayerFilter =
                       MyBroadPhaseCanCollide (JPH_ENABLE_ASSERTS env),
                     inObjectLayerPairFilter = MyObjectCanCollide (JPH_ENABLE_ASSERTS env) \<rparr>;
           p7 = log_events [Called_PhysicsSystem_Init] p6
       in Inr (\<lparr> mTempAllocator = tmp, mJobSystem = jobs, mBPLayerInterface = bpl,
                 mPhysicsSystem = Some world \<rparr>, p7))"

text \<open>
  The destructor. C++ runs the body first (lines 160-161) and then destroys the members in
  the reverse of the order of their declaration.
\<close>

definition JoltInterface_dtor :: "process \<Rightarrow> fault + process" where
  "JoltInterface_dtor p =
     and_then (delete_Factory (Factory_sInstance p) p) (\<lambda>p1.
       let p2 = p1\<lparr>Factory_sInstance := None\<rparr>
       in Inr (log_events [Destroyed R_PhysicsSystem, Destroyed R_BPLayerInterface,
                           Destroyed R_JobSystem, Destroyed R_TempAllocator] p2))"

text \<open>Reading a trace: what it created and what it destroyed, each oldest first.\<close>

fun created :: "event list \<Rightarrow> resource list" where
  "created [] = []"
| "created (Created r # es) = r # created es"
| "created (e # es) = created es"

fun destroyed :: "event list \<Rightarrow> resource list" where
  "destroyed [] = []"
| "destroyed (Destroyed r # es) = r # destroyed es"
| "destroyed (e # es) = destroyed es"

text \<open>\<open>torn_down_before a b es\<close>: in the trace, \<open>a\<close> is destroyed before \<open>b\<close> is.\<close>

definition torn_down_before :: "resource \<Rightarrow> resource \<Rightarrow> event list \<Rightarrow> bool" where
  "torn_down_before a b es =
     (Destroyed b \<in> set es \<and> Destroyed a \<in> set (takeWhile (\<lambda>e. e \<noteq> Destroyed b) es))"

text \<open>
  A process at its start, before any driver exists, and a build with assertion checking
  on, the job-system constants of the Jolt headers and eight hardware threads.
\<close>

definition process_start :: process where
  "process_start =
     \<lparr> Trace = Hook_default, AssertFailed_hook = Hook_default, Factory_sInstance = None,
       live_factories = [], events = [] \<rparr>"

definition env_example :: build_env where
  "env_example =
     \<lparr> JPH_ENABLE_ASSERTS = True, cMaxPhysicsJobs = 2048, cMaxPhysicsBarriers = 8,
       hardware_concurrency = 8 \<rparr>"

text \<open>The process after one driver has been constructed and is live.\<close>

definition process_one_driver :: process where
  "process_one_driver = snd (projr (JoltInterface_ctor env_example process_start))"

section \<open>Properties of the filters and the mapper\<close>

lemma valid_layer_cases: "valid_layer l \<longleftrightarrow> l = 0 \<or> l = 1"
proof
  assume "valid_layer l"
  then have "uint l < 2" by (simp add: valid_layer_def)
  moreover have "0 \<le> uint l" by simp
  ultimately have "uint l = 0 \<or> uint l = 1" by arith
  then show "l = 0 \<or> l = 1" by (auto simp: word_uint_eq_iff)
next
  assume "l = 0 \<or> l = 1"
  then show "valid_layer l" by (auto simp: valid_layer_def)
qed

lemma invalid_layer_uint: "\<not> valid_layer l \<Longrightarrow> uint l \<noteq> 0 \<and> uint l \<noteq> 1 \<and> \<not> uint l < 2"
  by (simp add: valid_layer_def)

lemma valid_layers_set: "{l. valid_layer l} = {0, 1}"
  by (auto simp: valid_layer_cases)

lemma table_after_ctor:
  "mObjectToBroadPhase BPLayerInterfaceImpl_ctor =
     [Some BroadPhaseLayers_NON_MOVING, Some BroadPhaseLayers_MOVING]"
  by (simp add: BPLayerInterfaceImpl_ctor_def numeral_2_eq_2)

lemma GetBroadPhaseLayer_NON_MOVING:
  "GetBroadPhaseLayer asserts BPLayerInterfaceImpl_ctor 0 = Inr BroadPhaseLayers_NON_MOVING"
  by (simp add: GetBroadPhaseLayer_def JPH_ASSERT_def and_then_def table_read_def
      table_after_ctor)

lemma GetBroadPhaseLayer_MOVING:
  "GetBroadPhaseLayer asserts BPLayerInterfaceImpl_ctor 1 = Inr BroadPhaseLayers_MOVING"
  by (simp add: GetBroadPhaseLayer_def JPH_ASSERT_def and_then_def table_read_def
      table_after_ctor)

lemma BroadPhaseLayers_distinct: "BroadPhaseLayers_NON_MOVING \<noteq> BroadPhaseLayers_MOVING"
  by (simp add: BroadPhaseLayers_NON_MOVING_def BroadPhaseLayers_MOVING_def)

text \<open>
  C1. Two non-moving bodies never collide: called with \<open>NON_MOVING\<close> on both sides,
  \<open>MyObjectCanCollide\<close> returns \<open>false\<close>, with assertion checking compiled in or out.
\<close>

theorem C1_non_moving_pair_never_collides:
  "MyObjectCanCollide asserts (ObjectLayer_of NON_MOVING) (ObjectLayer_of NON_MOVING)
     = Inr False"
  by (simp add: MyObjectCanCollide_def ObjectLayer_of_def)

text \<open>
  C2. For two valid object layers of which at least one is \<open>MOVING\<close>,
  \<open>MyObjectCanCollide\<close> returns \<open>true\<close>, whichever of the two arguments it is.
\<close>

theorem C2_moving_collides_with_everything:
  assumes "valid_layer o1" and "valid_layer o2"
    and "o1 = ObjectLayer_of MOVING \<or> o2 = ObjectLayer_of MOVING"
  shows "MyObjectCanCollide asserts o1 o2 = Inr True"
  using assms by (auto simp: MyObjectCanCollide_def ObjectLayer_of_def valid_layer_cases)

theorem C2_witness:
  "valid_layer 1 \<and> valid_layer 0
   \<and> MyObjectCanCollide True 1 0 = Inr True
   \<and> MyObjectCanCollide True 0 1 = Inr True
   \<and> MyObjectCanCollide True 1 1 = Inr True"
  using C2_moving_collides_with_everything [of 1 0 True]
    C2_moving_collides_with_everything [of 0 1 True]
    C2_moving_collides_with_everything [of 1 1 True]
  by (simp add: valid_layer_def ObjectLayer_of_def)

text \<open>
  C3. The coarse filter agrees with the fine one under the mapper: for valid object layers
  \<open>o1\<close> and \<open>o2\<close>, the mapper returns a broadphase layer for \<open>o2\<close>, and
  \<open>MyBroadPhaseCanCollide\<close> on \<open>o1\<close> and that layer returns the boolean that
  \<open>MyObjectCanCollide\<close> returns on \<open>o1\<close> and \<open>o2\<close>.
\<close>

theorem C3_broadphase_filter_agrees:
  assumes "valid_layer o1" and "valid_layer o2"
  shows "\<exists>b. GetBroadPhaseLayer asserts BPLayerInterfaceImpl_ctor o2 = Inr b
           \<and> MyBroadPhaseCanCollide asserts o1 b = MyObjectCanCollide asserts o1 o2
           \<and> \<not> isl (MyObjectCanCollide asserts o1 o2)"
proof -
  from assms(2) have "o2 = 0 \<or> o2 = 1" by (simp add: valid_layer_cases)
  moreover from assms(1) have "o1 = 0 \<or> o1 = 1" by (simp add: valid_layer_cases)
  ultimately show ?thesis
    by (auto simp: GetBroadPhaseLayer_NON_MOVING GetBroadPhaseLayer_MOVING
        MyBroadPhaseCanCollide_def MyObjectCanCollide_def BroadPhaseLayers_distinct)
qed

theorem C3_witness:
  "valid_layer 0 \<and> valid_layer 1
   \<and> GetBroadPhaseLayer True BPLayerInterfaceImpl_ctor 1 = Inr 1
   \<and> MyBroadPhaseCanCollide True 0 1 = MyObjectCanCollide True 0 1
   \<and> MyObjectCanCollide True 0 1 = Inr True"
  using C3_broadphase_filter_agrees [of 0 1 True]
  by (simp add: valid_layer_def GetBroadPhaseLayer_MOVING BroadPhaseLayers_MOVING_def
      MyObjectCanCollide_def)

text \<open>
  C4. The mapper sends \<open>NON_MOVING\<close> to the broadphase layer \<open>NON_MOVING\<close> and
  \<open>MOVING\<close> to the broadphase layer \<open>MOVING\<close>, two distinct values, so it is one-to-one
  on the object layers; \<open>GetNumBroadPhaseLayers\<close> returns 2, the number of distinct
  values the mapper returns on the object layers.
\<close>

theorem C4_mapper_one_to_one:
  "GetBroadPhaseLayer asserts BPLayerInterfaceImpl_ctor (ObjectLayer_of NON_MOVING)
     = Inr BroadPhaseLayers_NON_MOVING
   \<and> GetBroadPhaseLayer asserts BPLayerInterfaceImpl_ctor (ObjectLayer_of MOVING)
     = Inr BroadPhaseLayers_MOVING
   \<and> BroadPhaseLayers_NON_MOVING \<noteq> BroadPhaseLayers_MOVING
   \<and> inj_on (GetBroadPhaseLayer asserts BPLayerInterfaceImpl_ctor) {l. valid_layer l}
   \<and> GetNumBroadPhaseLayers BPLayerInterfaceImpl_ctor = 2
   \<and> unat (GetNumBroadPhaseLayers BPLayerInterfaceImpl_ctor)
     = card (GetBroadPhaseLayer asserts BPLayerInterfaceImpl_ctor ` {l. valid_layer l})"
  by (simp add: valid_layers_set ObjectLayer_of_def GetBroadPhaseLayer_NON_MOVING
      GetBroadPhaseLayer_MOVING BroadPhaseLayers_distinct GetNumBroadPhaseLayers_def
      BroadPhaseLayers_NUM_LAYERS_def)

text \<open>
  C5, as stated, fails: with assertion checking compiled in, an unknown layer passed as
  the second argument of \<open>MyObjectCanCollide\<close> is never looked at by the \<open>switch\<close> and
  the call returns \<open>true\<close>; with assertion checking compiled out, an unknown first
  argument gives the default \<open>false\<close> and no assertion.
\<close>

theorem C5_counterexample:
  "\<not> valid_layer 2
   \<and> MyObjectCanCollide True (ObjectLayer_of MOVING) 2 = Inr True
   \<and> MyObjectCanCollide False 2 (ObjectLayer_of NON_MOVING) = Inr False"
  by (simp add: valid_layer_def MyObjectCanCollide_def ObjectLayer_of_def JPH_ASSERT_def
      and_then_def)

text \<open>
  C5, amended. With assertion checking compiled in, every object layer outside the known
  set that is passed as the first argument of \<open>MyObjectCanCollide\<close>, as the first
  argument of \<open>MyBroadPhaseCanCollide\<close> or as the argument of \<open>GetBroadPhaseLayer\<close>
  stops the call in a failed assertion handed to the assertion sink; no result is
  returned.
\<close>

theorem C5_unknown_layer_asserts:
  assumes "\<not> valid_layer l"
  shows "MyObjectCanCollide True l o2 = Inl (AssertFailed ''false'')
       \<and> MyBroadPhaseCanCollide True l b = Inl (AssertFailed ''false'')
       \<and> GetBroadPhaseLayer True this l
           = Inl (AssertFailed ''inLayer < (int)Layers::NUM_LAYERS'')"
  using invalid_layer_uint [OF assms]
  by (simp add: MyObjectCanCollide_def MyBroadPhaseCanCollide_def GetBroadPhaseLayer_def
      JPH_ASSERT_def AssertFailedImpl_def and_then_def)

theorem C5_witness:
  "\<not> valid_layer 2
   \<and> MyObjectCanCollide True 2 1 = Inl (AssertFailed ''false'')
   \<and> MyBroadPhaseCanCollide True 2 1 = Inl (AssertFailed ''false'')
   \<and> GetBroadPhaseLayer True BPLayerInterfaceImpl_ctor 2
       = Inl (AssertFailed ''inLayer < (int)Layers::NUM_LAYERS'')"
  using C5_unknown_layer_asserts [of 2 1 1 BPLayerInterfaceImpl_ctor]
  by (simp add: valid_layer_def)




section \<open>Properties of the driver\<close>

lemma sint_below_half: "uint (w :: 32 word) < 2 ^ 31 \<Longrightarrow> sint w = uint w"
proof -
  assume a: "uint w < 2 ^ 31"
  have "(- (2 ^ 31) :: int) \<le> 0" by simp
  also have "\<dots> \<le> uint w" by simp
  finally have b: "- (2 ^ 31) \<le> uint w" .
  show ?thesis
    using a b by (simp add: sint_uint signed_take_bit_int_eq_self)
qed

lemma num_threads_arg_in_range:
  assumes "uint hc < 2 ^ 31"
  shows "num_threads_arg hc = Inr (uint hc - 1)"
proof -
  have "sint hc = uint hc" using assms by (rule sint_below_half)
  moreover have "uint hc \<noteq> - (2 ^ 31)"
  proof
    assume "uint hc = - (2 ^ 31)"
    then have "uint hc < 0" by simp
    then show False by simp
  qed
  ultimately show ?thesis by (simp add: num_threads_arg_def)
qed

lemma fold_max_ge: "(a :: nat) \<le> fold max xs a"
  by (induction xs arbitrary: a) (auto intro: order_trans [OF max.cobounded2])

lemma fold_max_member: "x \<in> set xs \<Longrightarrow> (x :: nat) \<le> fold max xs a"
proof (induction xs arbitrary: a)
  case Nil
  then show ?case by simp
next
  case (Cons y ys)
  show ?case
  proof (cases "x = y")
    case True
    have "y \<le> max y a" by simp
    also have "\<dots> \<le> fold max ys (max y a)" by (rule fold_max_ge)
    finally show ?thesis using True by simp
  next
    case False
    with Cons.prems have "x \<in> set ys" by simp
    then show ?thesis using Cons.IH by simp
  qed
qed

lemma fresh_address_not_live: "fresh_address live \<notin> set live"
proof
  assume "fresh_address live \<in> set live"
  then have "fresh_address live \<le> fold max live 0" by (rule fold_max_member)
  then show False by (simp add: fresh_address_def)
qed

lemma JoltInterface_ctor_result:
  assumes "uint (hardware_concurrency env) < 2 ^ 31"
  shows "JoltInterface_ctor env p =
     Inr (\<lparr> mTempAllocator = \<lparr> arena_size = 10485760 \<rparr>,
             mJobSystem = \<lparr> inMaxJobs = cMaxPhysicsJobs env,
                            inMaxBarriers = cMaxPhysicsBarriers env,
                            inNumThreads = uint (hardware_concurrency env) - 1 \<rparr>,
             mBPLayerInterface = BPLayerInterfaceImpl_ctor,
             mPhysicsSystem = Some
               \<lparr> inMaxBodies = 1024, inNumBodyMutexes = 0, inMaxBodyPairs = 1024,
                 inMaxContactConstraints = 1024,
                 inBroadPhaseLayerInterface = BPLayerInterfaceImpl_ctor,
                 inObjectVsBroadPhaseLayerFilter =
                   MyBroadPhaseCanCollide (JPH_ENABLE_ASSERTS env),
                 inObjectLayerPairFilter = MyObjectCanCollide (JPH_ENABLE_ASSERTS env) \<rparr> \<rparr>,
          p\<lparr> Trace := Hook_TraceImpl,
             AssertFailed_hook :=
               (if JPH_ENABLE_ASSERTS env then Hook_AssertFailedImpl else AssertFailed_hook p),
             Factory_sInstance := Some (fresh_address (live_factories p)),
             live_factories := fresh_address (live_factories p) # live_factories p,
             events := events p @
               [Created R_TempAllocator, Created R_JobSystem, Created R_BPLayerInterface,
                Created R_PhysicsSystem, Created R_Factory, Called_RegisterTypes,
                Called_PhysicsSystem_Init] \<rparr>)"
  by (simp add: JoltInterface_ctor_def num_threads_arg_in_range [OF assms] and_then_def
      new_Factory_def log_events_def Let_def)

lemma JoltInterface_ctor_process:
  assumes "JoltInterface_ctor env p = Inr (this, p1)"
  shows "p1 = p\<lparr> Trace := Hook_TraceImpl,
             AssertFailed_hook :=
               (if JPH_ENABLE_ASSERTS env then Hook_AssertFailedImpl else AssertFailed_hook p),
             Factory_sInstance := Some (fresh_address (live_factories p)),
             live_factories := fresh_address (live_factories p) # live_factories p,
             events := events p @
               [Created R_TempAllocator, Created R_JobSystem, Created R_BPLayerInterface,
                Created R_PhysicsSystem, Created R_Factory, Called_RegisterTypes,
                Called_PhysicsSystem_Init] \<rparr>"
  using assms
  by (auto simp: JoltInterface_ctor_def and_then_def new_Factory_def log_events_def Let_def
      split: sum.splits)

lemma env_example_in_range: "uint (hardware_concurrency env_example) < 2 ^ 31"
  by (simp add: env_example_def)

lemma process_one_driver_eq:
  "process_one_driver =
     \<lparr> Trace = Hook_TraceImpl, AssertFailed_hook = Hook_AssertFailedImpl,
       Factory_sInstance = Some 1, live_factories = [1],
       events = [Created R_TempAllocator, Created R_JobSystem, Created R_BPLayerInterface,
                 Created R_PhysicsSystem, Created R_Factory, Called_RegisterTypes,
                 Called_PhysicsSystem_Init] \<rparr>"
  unfolding process_one_driver_def JoltInterface_ctor_result [OF env_example_in_range]
  by (simp add: process_start_def fresh_address_def env_example_def)

lemma dtor_result:
  assumes "Factory_sInstance p = Some a" and "a \<in> set (live_factories p)"
  shows "JoltInterface_dtor p =
     Inr (p\<lparr> Factory_sInstance := None,
             live_factories := removeAll a (live_factories p),
             events := events p @
               [Destroyed R_Factory, Destroyed R_PhysicsSystem, Destroyed R_BPLayerInterface,
                Destroyed R_JobSystem, Destroyed R_TempAllocator] \<rparr>)"
  using assms
  by (simp add: JoltInterface_dtor_def delete_Factory_def and_then_def log_events_def Let_def)


lemma process_two_drivers:
  "JoltInterface_ctor env_example process_one_driver =
     Inr (fst (projr (JoltInterface_ctor env_example process_start)),
       \<lparr> Trace = Hook_TraceImpl, AssertFailed_hook = Hook_AssertFailedImpl,
         Factory_sInstance = Some 2, live_factories = [2, 1],
         events = [Created R_TempAllocator, Created R_JobSystem, Created R_BPLayerInterface,
                   Created R_PhysicsSystem, Created R_Factory, Called_RegisterTypes,
                   Called_PhysicsSystem_Init,
                   Created R_TempAllocator, Created R_JobSystem, Created R_BPLayerInterface,
                   Created R_PhysicsSystem, Created R_Factory, Called_RegisterTypes,
                   Called_PhysicsSystem_Init] \<rparr>)"
  unfolding JoltInterface_ctor_result [OF env_example_in_range] process_one_driver_eq
  by (simp add: fresh_address_def)

lemma dtor_one_driver:
  "JoltInterface_dtor process_one_driver =
     Inr \<lparr> Trace = Hook_TraceImpl, AssertFailed_hook = Hook_AssertFailedImpl,
           Factory_sInstance = None, live_factories = [],
           events = [Created R_TempAllocator, Created R_JobSystem, Created R_BPLayerInterface,
                     Created R_PhysicsSystem, Created R_Factory, Called_RegisterTypes,
                     Called_PhysicsSystem_Init,
                     Destroyed R_Factory, Destroyed R_PhysicsSystem,
                     Destroyed R_BPLayerInterface, Destroyed R_JobSystem,
                     Destroyed R_TempAllocator] \<rparr>"
  by (simp add: process_one_driver_eq JoltInterface_dtor_def delete_Factory_def and_then_def
      log_events_def)

text \<open>
  C6, as stated, fails: with one driver live (the singleton pointer set, its factory
  allocated), constructing a second driver returns normally; nothing is asserted.
\<close>

theorem C6_counterexample:
  "Factory_sInstance process_one_driver = Some 1
   \<and> 1 \<in> set (live_factories process_one_driver)
   \<and> \<not> isl (JoltInterface_ctor env_example process_one_driver)"
  by (simp add: process_two_drivers) (simp add: process_one_driver_eq)

text \<open>
  C6, amended. Constructing a second driver while one is live is not rejected: the
  constructor has no check of the singleton pointer and returns normally; it allocates a
  new factory and overwrites \<open>Factory::sInstance\<close> with it, the factory of the first
  driver stays allocated with the singleton pointer no longer referring to it, and nothing
  is destroyed. (The host's hardware concurrency is taken below \<open>2^31\<close>, where the cast
  to \<open>int\<close> keeps its value.)
\<close>

theorem C6_second_construction_proceeds:
  assumes "Factory_sInstance p = Some a" and "a \<in> set (live_factories p)"
    and "uint (hardware_concurrency env) < 2 ^ 31"
  shows "\<exists>this p'. JoltInterface_ctor env p = Inr (this, p')
           \<and> Factory_sInstance p' = Some (fresh_address (live_factories p))
           \<and> fresh_address (live_factories p) \<noteq> a
           \<and> live_factories p' = fresh_address (live_factories p) # live_factories p
           \<and> a \<in> set (live_factories p')
           \<and> destroyed (drop (length (events p)) (events p')) = []"
proof -
  have "fresh_address (live_factories p) \<noteq> a"
    using assms(2) fresh_address_not_live [of "live_factories p"] by auto
  then show ?thesis
    using assms(2) by (simp add: JoltInterface_ctor_result [OF assms(3)])
qed

theorem C6_witness:
  "Factory_sInstance process_one_driver = Some 1
   \<and> 1 \<in> set (live_factories process_one_driver)
   \<and> uint (hardware_concurrency env_example) < 2 ^ 31
   \<and> Factory_sInstance (snd (projr (JoltInterface_ctor env_example process_one_driver)))
       = Some 2
   \<and> live_factories (snd (projr (JoltInterface_ctor env_example process_one_driver)))
       = [2, 1]"
proof -
  have h1: "Factory_sInstance process_one_driver = Some 1"
    by (simp add: process_one_driver_eq)
  have h2: "1 \<in> set (live_factories process_one_driver)"
    by (simp add: process_one_driver_eq)
  have fresh: "fresh_address (live_factories process_one_driver) = 2"
    by (simp add: process_one_driver_eq fresh_address_def)
  from C6_second_construction_proceeds [OF h1 h2 env_example_in_range]
  show ?thesis
    using h1 h2 env_example_in_range by (auto simp: fresh) (simp add: process_one_driver_eq)
qed

text \<open>
  C7, as stated, fails: destroying the one live driver does not tear down the world or the
  job pool before the singleton; the singleton is destroyed before the world.
\<close>

theorem C7_counterexample:
  "\<not> torn_down_before R_PhysicsSystem R_Factory
        (events (projr (JoltInterface_dtor process_one_driver)))
   \<and> \<not> torn_down_before R_JobSystem R_Factory
        (events (projr (JoltInterface_dtor process_one_driver)))
   \<and> torn_down_before R_Factory R_PhysicsSystem
        (events (projr (JoltInterface_dtor process_one_driver)))"
  by (simp add: dtor_one_driver torn_down_before_def)

text \<open>
  C7, amended. Destroying a driver first destroys the process-wide type-registration
  singleton and sets the singleton pointer to null, and then tears down the world, the
  mapper, the job pool and the scratch arena, in that order. This is the strict reverse of
  the order in which construction created them (the four members, then the singleton);
  afterwards the singleton pointer is null and its factory is no longer allocated.
\<close>

theorem C7_destruction_order:
  assumes "JoltInterface_ctor env p = Inr (this, p1)"
  shows "\<exists>p2. JoltInterface_dtor p1 = Inr p2
           \<and> events p2 = events p1 @
               [Destroyed R_Factory, Destroyed R_PhysicsSystem, Destroyed R_BPLayerInterface,
                Destroyed R_JobSystem, Destroyed R_TempAllocator]
           \<and> destroyed (drop (length (events p1)) (events p2))
               = rev (created (drop (length (events p)) (events p1)))
           \<and> Factory_sInstance p2 = None
           \<and> the (Factory_sInstance p1) \<notin> set (live_factories p2)"
proof -
  let ?a = "fresh_address (live_factories p)"
  have s: "Factory_sInstance p1 = Some ?a" and l: "?a \<in> set (live_factories p1)"
    and e: "events p1 = events p @
               [Created R_TempAllocator, Created R_JobSystem, Created R_BPLayerInterface,
                Created R_PhysicsSystem, Created R_Factory, Called_RegisterTypes,
                Called_PhysicsSystem_Init]"
    by (simp_all add: JoltInterface_ctor_process [OF assms])
  show ?thesis
    by (simp add: dtor_result [OF s l] s e)
qed

theorem C7_witness:
  "JoltInterface_ctor env_example process_start
     = Inr (fst (projr (JoltInterface_ctor env_example process_start)), process_one_driver)
   \<and> events (projr (JoltInterface_dtor process_one_driver))
       = events process_one_driver @
           [Destroyed R_Factory, Destroyed R_PhysicsSystem, Destroyed R_BPLayerInterface,
            Destroyed R_JobSystem, Destroyed R_TempAllocator]
   \<and> Factory_sInstance (projr (JoltInterface_dtor process_one_driver)) = None"
proof -
  have h: "JoltInterface_ctor env_example process_start
     = Inr (fst (projr (JoltInterface_ctor env_example process_start)), process_one_driver)"
    unfolding process_one_driver_def
    by (simp add: JoltInterface_ctor_result [OF env_example_in_range])
  from C7_destruction_order [OF h]
  show ?thesis using h by auto
qed

text \<open>
  C8. Construction returns a driver whose scratch arena was given exactly
  \<open>10 * 1024 * 1024\<close> bytes, whose job pool was given the two fixed maxima for jobs and
  barriers and the hardware concurrency minus one as its number of threads, and whose
  world was initialised with the fixed limits 1024 for bodies, body pairs and contact
  constraints (and 0 body mutexes), the driver's own mapper and the two filter functions.
  (The host's hardware concurrency is taken below \<open>2^31\<close>, where the cast to \<open>int\<close>
  keeps its value.)
\<close>

theorem C8_construction_parameters:
  assumes "uint (hardware_concurrency env) < 2 ^ 31"
  shows "\<exists>this p'. JoltInterface_ctor env p = Inr (this, p')
           \<and> arena_size (mTempAllocator this) = 10 * 1024 * 1024
           \<and> mJobSystem this =
               \<lparr> inMaxJobs = cMaxPhysicsJobs env, inMaxBarriers = cMaxPhysicsBarriers env,
                 inNumThreads = uint (hardware_concurrency env) - 1 \<rparr>
           \<and> mBPLayerInterface this = BPLayerInterfaceImpl_ctor
           \<and> mPhysicsSystem this = Some
               \<lparr> inMaxBodies = 1024, inNumBodyMutexes = 0, inMaxBodyPairs = 1024,
                 inMaxContactConstraints = 1024,
                 inBroadPhaseLayerInterface = mBPLayerInterface this,
                 inObjectVsBroadPhaseLayerFilter =
                   MyBroadPhaseCanCollide (JPH_ENABLE_ASSERTS env),
                 inObjectLayerPairFilter = MyObjectCanCollide (JPH_ENABLE_ASSERTS env) \<rparr>"
  by (simp add: JoltInterface_ctor_result [OF assms])

theorem C8_witness:
  "uint (hardware_concurrency env_example) < 2 ^ 31
   \<and> arena_size (mTempAllocator (fst (projr (JoltInterface_ctor env_example process_start))))
       = 10485760
   \<and> mJobSystem (fst (projr (JoltInterface_ctor env_example process_start)))
       = \<lparr> inMaxJobs = 2048, inMaxBarriers = 8, inNumThreads = 7 \<rparr>"
  using C8_construction_parameters [OF env_example_in_range, of process_start]
    env_example_in_range
  by (auto simp: env_example_def)

end
